theory Spec2Isabelle
  imports Main "HOL-Library.Word"
begin

unbundle bit_operations_syntax

section \<open>cnostrtest/websocket\_client.c\<close>

text \<open>
  The program is a libwebsockets client: a callback \<open>callback_http\<close> that prints what it is
  told about, and a \<open>main\<close> that creates a context, starts one client connection and services
  the context forever. The library itself is not part of the program; its functions are
  the program's environment, and its header's constants are parameters.
\<close>

subsection \<open>What libwebsockets.h declares\<close>

text \<open>
  \<open>enum lws_callback_reasons\<close>. The program names three enumerators; every other one is
  \<open>LWS_CALLBACK_other\<close> with its number.
\<close>

datatype lws_callback_reasons =
    LWS_CALLBACK_CLIENT_ESTABLISHED
  | LWS_CALLBACK_CLIENT_RECEIVE
  | LWS_CALLBACK_CLIENT_CONNECTION_ERROR
  | LWS_CALLBACK_other nat

text \<open>
  The macros and enumerators of the header that \<open>main\<close> uses. Their values are the
  library's, so they are left open: every theorem holds for each choice of them.
\<close>

record lws_h =
  CONTEXT_PORT_NO_LISTEN :: int
  LLL_ERR :: "32 word"
  LLL_WARN :: "32 word"
  LLL_NOTICE :: "32 word"
  LLL_INFO :: "32 word"
  LLL_DEBUG :: "32 word"
  LCCSCF_USE_SSL :: "32 word"
  LCCSCF_ALLOW_SELFSIGNED :: "32 word"
  LCCSCF_SKIP_SERVER_CERT_HOSTNAME_CHECK :: "32 word"

text \<open>Opaque library objects (\<open>struct lws_context *\<close>, \<open>struct lws *\<close>) are handles.\<close>

type_synonym lws_context = nat
type_synonym lws = nat

text \<open>
  The fields of \<open>struct lws_context_creation_info\<close> and \<open>struct lws_client_connect_info\<close>
  that \<open>main\<close> assigns; \<open>memset\<close> leaves every other field zero. A \<open>NULL\<close> pointer is \<open>None\<close>.
\<close>

record lws_context_creation_info =
  port :: int
  protocols :: "nat option"
  gid :: int
  uid :: int

record lws_client_connect_info =
  context' :: lws_context
  address :: string
  path :: string
  host :: string
  origin :: string
  protocol :: "string option"
  ietf_version_or_minus_one :: int
  ssl_connection :: "32 word"

text \<open>The library calls a run of the program makes, with their arguments.\<close>

datatype lws_call =
    Lws_set_log_level "32 word"
  | Lws_create_context lws_context_creation_info
  | Lws_canonical_hostname lws_context
  | Lws_client_connect_via_info lws_client_connect_info
  | Lws_service lws_context int
  | Lws_context_destroy lws_context

subsection \<open>The state of a run\<close>

text \<open>
  What the program has written to standard output, and the library calls it has made,
  oldest first. A C \<open>char\<close> is an Isabelle \<open>char\<close> (one byte), \<open>char *\<close> contents a \<open>string\<close>.
\<close>

record run_state =
  stdout :: string
  calls :: "lws_call list"

definition initial :: run_state where
  "initial = \<lparr>stdout = [], calls = []\<rparr>"

definition printf :: "string \<Rightarrow> run_state \<Rightarrow> run_state" where
  "printf text s = s\<lparr>stdout := stdout s @ text\<rparr>"

definition called :: "lws_call \<Rightarrow> run_state \<Rightarrow> run_state" where
  "called c s = s\<lparr>calls := calls s @ [c]\<rparr>"

subsection \<open>printf's string conversion\<close>

text \<open>
  \<open>%.*s\<close> takes an \<open>int\<close> precision and a pointer to a character array. It writes the
  characters of the array up to, not including, the first null character; a precision
  \<open>p \<ge> 0\<close> stops it after \<open>p\<close> characters, a negative precision counts as no precision
  (C11 7.21.6.1). \<open>mem\<close> is the array the pointer points into, from the pointer on. Reading
  beyond its end is undefined behaviour: \<open>None\<close>.
\<close>

fun read_chars :: "nat option \<Rightarrow> string \<Rightarrow> string option" where
  "read_chars (Some 0) mem = Some []"
| "read_chars limit [] = None"
| "read_chars limit (c # mem) =
     (if c = CHR 0x00 then Some []
      else map_option ((#) c) (read_chars (map_option (\<lambda>n. n - 1) limit) mem))"

definition conv_precision_s :: "int \<Rightarrow> string \<Rightarrow> string option" where
  "conv_precision_s p mem = read_chars (if p < 0 then None else Some (nat p)) mem"

text \<open>
  The cast \<open>(int)len\<close> of a \<open>size_t\<close>: the value modulo \<open>2^32\<close> read as two's complement
  (what gcc and clang define for a 32-bit \<open>int\<close>; the value itself when it fits).
\<close>

definition int_of_size_t :: "nat \<Rightarrow> int" where
  "int_of_size_t len = sint (word_of_nat len :: 32 word)"

subsection \<open>callback\_http\<close>

datatype fault = Read_out_of_bounds

text \<open>
  \<open>wsi\<close> and \<open>user\<close> are not used. \<open>in_mem\<close> is the memory \<open>in\<close> points to (empty for
  \<open>NULL\<close>), \<open>len\<close> the \<open>size_t\<close> length. The result is the \<open>int\<close> returned and the state
  after the call, or the fault of the \<open>printf\<close>.
\<close>

definition callback_http ::
  "lws \<Rightarrow> lws_callback_reasons \<Rightarrow> nat option \<Rightarrow> string \<Rightarrow> nat \<Rightarrow> run_state
     \<Rightarrow> fault + int \<times> run_state" where
  "callback_http wsi reason user in_mem len s =
     (case
        (case reason of
           LWS_CALLBACK_CLIENT_ESTABLISHED \<Rightarrow>
             Inr (printf ''WebSocket connection established\<newline>'' s)
         | LWS_CALLBACK_CLIENT_RECEIVE \<Rightarrow>
             (case conv_precision_s (int_of_size_t len) in_mem of
                None \<Rightarrow> Inl Read_out_of_bounds
              | Some text \<Rightarrow> Inr (printf (''Received message: '' @ text @ ''\<newline>'') s))
         | LWS_CALLBACK_CLIENT_CONNECTION_ERROR \<Rightarrow>
             Inr (printf ''WebSocket connection error\<newline>'' s)
         | LWS_CALLBACK_other n \<Rightarrow> Inr s)
      of Inl f \<Rightarrow> Inl f
       | Inr s' \<Rightarrow> Inr (0, s'))"

subsection \<open>main\<close>

definition SERVER_URL :: string where
  "SERVER_URL = ''wss://relay.wellorder.net''"

text \<open>
  What the library answers: the context \<open>lws_create_context\<close> returns (\<open>None\<close> for
  \<open>NULL\<close>), the name \<open>lws_canonical_hostname\<close> returns, the connection
  \<open>lws_client_connect_via_info\<close> returns (\<open>None\<close> for \<open>NULL\<close>). \<open>main\<close> makes each of
  these calls at most once and ignores what \<open>lws_service\<close> returns, so one value each
  describes the library's side of a run. \<open>main\<close> hands the library no protocol table
  (\<open>info.protocols\<close> and \<open>conn_info.protocol\<close> are \<open>NULL\<close>), so the library holds no
  pointer to \<open>callback_http\<close> and a library call changes nothing the program can see
  but its result.
\<close>

record lws_env =
  lws_create_context :: "lws_context option"
  lws_canonical_hostname :: string
  lws_client_connect_via_info :: "lws option"

text \<open>
  A \<open>while\<close> loop run for at most \<open>fuel\<close> rounds: \<open>Exited\<close> with the state in which the
  condition was false, or \<open>Looping\<close> with the state reached when the rounds are used up.
\<close>

datatype loop = Exited run_state | Looping run_state

fun while_loop :: "nat \<Rightarrow> (run_state \<Rightarrow> bool) \<Rightarrow> (run_state \<Rightarrow> run_state) \<Rightarrow> run_state \<Rightarrow> loop" where
  "while_loop 0 cond body s = (if cond s then Looping s else Exited s)"
| "while_loop (Suc n) cond body s =
     (if cond s then while_loop n cond body (body s) else Exited s)"

text \<open>
  A run of \<open>main\<close> observed for \<open>fuel\<close> rounds of its service loop: it has returned an
  exit code, or it is still in the loop. Both carry the state reached. The states of one
  run are those of \<open>main h env fuel argc argv\<close> for \<open>fuel = 0, 1, 2, ...\<close>; the call log
  only grows, so each of them shows every call made up to it.
\<close>

datatype outcome = Returned int run_state | Servicing run_state

fun state_of :: "outcome \<Rightarrow> run_state" where
  "state_of (Returned rc s) = s"
| "state_of (Servicing s) = s"

definition main :: "lws_h \<Rightarrow> lws_env \<Rightarrow> nat \<Rightarrow> int \<Rightarrow> string list \<Rightarrow> outcome" where
  "main h env fuel argc argv =
     (let info = \<lparr>port = CONTEXT_PORT_NO_LISTEN h, protocols = None, gid = - 1, uid = - 1\<rparr>;
          s = called (Lws_set_log_level
                (LLL_ERR h OR LLL_WARN h OR LLL_NOTICE h OR LLL_INFO h OR LLL_DEBUG h)) initial;
          s = called (Lws_create_context info) s
      in case lws_create_context env of
           None \<Rightarrow> Returned 1 (printf ''Failed to create WebSocket context\<newline>'' s)
         | Some context \<Rightarrow>
             (let s = called (Lws_canonical_hostname context) s;
                  conn_info = \<lparr>context' = context, address = SERVER_URL, path = ''/'',
                    host = lws_canonical_hostname env, origin = SERVER_URL, protocol = None,
                    ietf_version_or_minus_one = - 1,
                    ssl_connection = LCCSCF_USE_SSL h OR LCCSCF_ALLOW_SELFSIGNED h
                      OR LCCSCF_SKIP_SERVER_CERT_HOSTNAME_CHECK h\<rparr>;
                  s = called (Lws_client_connect_via_info conn_info) s
              in case lws_client_connect_via_info env of
                   None \<Rightarrow>
                     Returned 1 (called (Lws_context_destroy context)
                       (printf ''Failed to connect to WebSocket server\<newline>'' s))
                 | Some wsi \<Rightarrow>
                     (case while_loop fuel (\<lambda>s. (1::int) \<noteq> 0)
                             (called (Lws_service context 0)) s of
                        Looping s \<Rightarrow> Servicing s
                      | Exited s \<Rightarrow> Returned 0 (called (Lws_context_destroy context) s))))"

text \<open>The number of connection attempts in a call log.\<close>

fun connect_attempts :: "lws_call list \<Rightarrow> nat" where
  "connect_attempts [] = 0"
| "connect_attempts (Lws_client_connect_via_info ci # cs) = Suc (connect_attempts cs)"
| "connect_attempts (c # cs) = connect_attempts cs"

subsection \<open>Example inputs\<close>

text \<open>
  The header's values in libwebsockets 4, and three libraries: one that gives a context and
  a connection, one that gives no context, one that gives a context and no connection.
\<close>

definition lws_h_v4 :: lws_h where
  "lws_h_v4 = \<lparr>CONTEXT_PORT_NO_LISTEN = - 1, LLL_ERR = 1, LLL_WARN = 2, LLL_NOTICE = 4,
     LLL_INFO = 8, LLL_DEBUG = 16, LCCSCF_USE_SSL = 1, LCCSCF_ALLOW_SELFSIGNED = 2,
     LCCSCF_SKIP_SERVER_CERT_HOSTNAME_CHECK = 4\<rparr>"

definition env_connected :: lws_env where
  "env_connected = \<lparr>lws_create_context = Some 1, lws_canonical_hostname = ''localhost'',
     lws_client_connect_via_info = Some 2\<rparr>"

definition env_no_context :: lws_env where
  "env_no_context = \<lparr>lws_create_context = None, lws_canonical_hostname = ''localhost'',
     lws_client_connect_via_info = None\<rparr>"

definition env_no_connection :: lws_env where
  "env_no_connection = \<lparr>lws_create_context = Some 1, lws_canonical_hostname = ''localhost'',
     lws_client_connect_via_info = None\<rparr>"

section \<open>The client core the specification describes\<close>

text \<open>
  The source file has no frame codec and no outbound queue: the specification designs them
  (its sections 3, 4.1 and 4.3) for a client that would not delegate them to a library.
  They are modelled here from the specification's text. Where it says "spec-compliant
  frame" and "WebSocket wire format", the layout is that of RFC 6455, section 5.2.
\<close>

type_synonym byte = "8 word"

text \<open>Modelled from the spec: the error taxonomy of section 7, absent from the source.\<close>

datatype ErrorKind = ProtocolViolation | Timeout | QueueFull | ConnectionClosed | GivingUp

subsection \<open>Frame codec\<close>

text \<open>
  Modelled from the spec: the opcode of a Frame (section 3), absent from the source:
  text, binary, ping, pong, close or continuation.
\<close>

datatype Opcode = Continuation | Text | Binary | Close | Ping | Pong

text \<open>
  Modelled from the spec: the Frame of section 3, absent from the source: opcode, payload
  (a byte sequence), fin flag, and the masking key, which only a client-to-server frame
  has. The key is the fresh random value drawn for the frame when it is built.
\<close>

record Frame =
  opcode :: Opcode
  payload :: "byte list"
  fin :: bool
  masking_key :: "byte list option"

text \<open>
  Modelled from the spec: the numbers of the opcodes in the wire format, absent from the
  source.
\<close>

fun opcode_number :: "Opcode \<Rightarrow> nat" where
  "opcode_number Continuation = 0"
| "opcode_number Text = 1"
| "opcode_number Binary = 2"
| "opcode_number Close = 8"
| "opcode_number Ping = 9"
| "opcode_number Pong = 10"

text \<open>
  Modelled from the spec: reading an opcode number back, absent from the source; a number
  the wire format reserves is \<open>None\<close>.
\<close>

definition opcode_of_number :: "nat \<Rightarrow> Opcode option" where
  "opcode_of_number n =
     (if n = 0 then Some Continuation else if n = 1 then Some Text
      else if n = 2 then Some Binary else if n = 8 then Some Close
      else if n = 9 then Some Ping else if n = 10 then Some Pong else None)"

text \<open>
  Modelled from the spec: the control frames of section 4.1 (ping, pong, close), absent
  from the source.
\<close>

fun is_control :: "Opcode \<Rightarrow> bool" where
  "is_control Close = True"
| "is_control Ping = True"
| "is_control Pong = True"
| "is_control op = False"

text \<open>Modelled from the spec: a number below 256 as one byte; absent from the source.\<close>

definition to_byte :: "nat \<Rightarrow> byte" where
  "to_byte n = of_nat n"

text \<open>
  Modelled from the spec: the extended length fields of section 4.1 (16-bit and 64-bit),
  absent from the source: \<open>k\<close> bytes, most significant first.
\<close>

fun be_bytes :: "nat \<Rightarrow> nat \<Rightarrow> byte list" where
  "be_bytes 0 n = []"
| "be_bytes (Suc k) n = be_bytes k (n div 256) @ [to_byte (n mod 256)]"

text \<open>
  Modelled from the spec: reading an extended length field back, absent from the source.
\<close>

definition be_value :: "byte list \<Rightarrow> nat" where
  "be_value bs = foldl (\<lambda>acc b. 256 * acc + unat b) 0 bs"

text \<open>
  Modelled from the spec: masking (glossary: the key is XORed into the payload), absent
  from the source: byte \<open>i\<close> of the data with byte \<open>i mod 4\<close> of the key, the key rotating
  as the data is consumed.
\<close>

fun xor_mask :: "byte list \<Rightarrow> byte list \<Rightarrow> byte list" where
  "xor_mask key [] = []"
| "xor_mask [] data = data"
| "xor_mask (k # key) (b # data) = (b XOR k) # xor_mask (key @ [k]) data"

text \<open>
  Modelled from the spec: the valid frame contents of section 8, absent from the source:
  a payload whose length fits the 64-bit length field, a masking key of four bytes if
  there is one, and at most 125 bytes of payload in a control frame (section 4.1).
\<close>

definition valid_frame :: "Frame \<Rightarrow> bool" where
  "valid_frame f \<longleftrightarrow>
     length (payload f) < 2 ^ 64
     \<and> (case masking_key f of None \<Rightarrow> True | Some key \<Rightarrow> length key = 4)
     \<and> (is_control (opcode f) \<longrightarrow> length (payload f) \<le> 125)"

text \<open>
  Modelled from the spec: \<open>encode\<close> of section 4.1, absent from the source. The first byte
  is the fin flag and the opcode, the second the mask flag and the 7-bit length, or 126
  and a 16-bit length, or 127 and a 64-bit length, chosen by the payload size; then the
  masking key and the masked payload. A control frame of more than 125 bytes fails with
  \<open>ProtocolViolation\<close>.
\<close>

definition encode :: "Frame \<Rightarrow> ErrorKind + byte list" where
  "encode f =
     (let n = length (payload f);
          mask_bit = (case masking_key f of None \<Rightarrow> 0 | Some key \<Rightarrow> 128)
      in if is_control (opcode f) \<and> 125 < n then Inl ProtocolViolation
         else Inr
           (to_byte ((if fin f then 128 else 0) + opcode_number (opcode f))
            # (if n \<le> 125 then [to_byte (mask_bit + n)]
               else if n < 65536 then to_byte (mask_bit + 126) # be_bytes 2 n
               else to_byte (mask_bit + 127) # be_bytes 8 n)
            @ (case masking_key f of
                 None \<Rightarrow> payload f
               | Some key \<Rightarrow> key @ xor_mask key (payload f))))"

text \<open>
  Modelled from the spec: \<open>decode\<close> of section 4.1, absent from the source: the next
  complete frame of the buffer and the number of bytes it takes, or \<open>None\<close> and zero
  bytes while the buffer is too short; a malformed frame (a reserved opcode or bit, a
  control frame of more than 125 bytes) is a \<open>ProtocolViolation\<close> (section 7).
\<close>

definition decode :: "byte list \<Rightarrow> ErrorKind + Frame option \<times> nat" where
  "decode buffer =
     (case buffer of
        b0 # b1 # rest \<Rightarrow>
          (case opcode_of_number (unat b0 mod 16) of
             None \<Rightarrow> Inl ProtocolViolation
           | Some op \<Rightarrow>
               if unat b0 div 16 mod 8 \<noteq> 0 then Inl ProtocolViolation
               else
                 let len7 = unat b1 mod 128;
                     ext = (if len7 = 126 then 2 else if len7 = 127 then 8 else 0);
                     klen = (if 128 \<le> unat b1 then 4 else 0)
                 in if length rest < ext then Inr (None, 0)
                    else
                      let n = (if ext = 0 then len7 else be_value (take ext rest))
                      in if is_control op \<and> 125 < n then Inl ProtocolViolation
                         else if length rest < ext + klen + n then Inr (None, 0)
                         else
                           let key = take klen (drop ext rest);
                               data = take n (drop (ext + klen) rest)
                           in Inr (Some \<lparr>opcode = op,
                                      payload = (if klen = 0 then data else xor_mask key data),
                                      fin = (128 \<le> unat b0),
                                      masking_key = (if klen = 0 then None else Some key)\<rparr>,
                                   2 + ext + klen + n))
      | _ \<Rightarrow> Inr (None, 0))"

subsection \<open>Outbound queue\<close>

text \<open>
  Modelled from the spec: the kind of an OutboundMessage (section 3), absent from the
  source: text or binary.
\<close>

datatype MessageKind = TextMessage | BinaryMessage

text \<open>
  Modelled from the spec: the OutboundMessage of section 3, absent from the source:
  payload, kind and enqueue timestamp.
\<close>

record OutboundMessage =
  message_payload :: "byte list"
  kind :: MessageKind
  enqueue_timestamp :: nat

text \<open>
  Modelled from the spec: the Outbound Queue of section 4.3, absent from the source: a
  bounded FIFO of capacity \<open>N\<close>, the oldest message first.
\<close>

record OutboundQueue =
  capacity :: nat
  messages :: "OutboundMessage list"

text \<open>
  Modelled from the spec: \<open>enqueue\<close> of section 4.3, absent from the source: it fails with
  \<open>QueueFull\<close> when the queue is at capacity and appends the message otherwise. The
  result is what the caller gets and the queue after the call.
\<close>

definition enqueue :: "OutboundMessage \<Rightarrow> OutboundQueue \<Rightarrow> (ErrorKind + unit) \<times> OutboundQueue" where
  "enqueue message q =
     (if capacity q \<le> length (messages q) then (Inl QueueFull, q)
      else (Inr (), q\<lparr>messages := messages q @ [message]\<rparr>))"

section \<open>Properties of the program\<close>

subsection \<open>printf and the cast\<close>

lemma read_chars_limit:
  "n \<le> length mem \<Longrightarrow> read_chars (Some n) mem = Some (takeWhile (\<lambda>c. c \<noteq> CHR 0x00) (take n mem))"
proof (induction n arbitrary: mem)
  case 0
  then show ?case by simp
next
  case (Suc n)
  then obtain c cs where mem: "mem = c # cs" by (cases mem) auto
  with Suc.prems have "n \<le> length cs" by simp
  from Suc.IH [OF this] show ?case by (simp add: mem)
qed

lemma int_of_size_t_fits: "len < 2 ^ 31 \<Longrightarrow> int_of_size_t len = int len"
proof -
  assume "len < 2 ^ 31"
  then have "int len < 2 ^ 31" by (metis of_nat_less_iff of_nat_numeral of_nat_power)
  then have "signed_take_bit 31 (int len) = int len"
    by (intro signed_take_bit_int_eq_self) simp_all
  then show ?thesis by (simp add: int_of_size_t_def signed_of_nat)
qed

lemma conv_precision_s_in_bounds:
  assumes "len \<le> length mem" "len < 2 ^ 31"
  shows "conv_precision_s (int_of_size_t len) mem = Some (takeWhile (\<lambda>c. c \<noteq> CHR 0x00) (take len mem))"
  using assms by (simp add: conv_precision_s_def int_of_size_t_fits read_chars_limit)



subsection \<open>The three ways a run of main goes\<close>

lemma while_loop_forever:
  "while_loop fuel (\<lambda>s. (1::int) \<noteq> 0) body s = Looping ((body ^^ fuel) s)"
  by (induction fuel arbitrary: s) (simp_all add: funpow_swap1)

lemma calls_called_funpow: "calls ((called c ^^ n) s) = calls s @ replicate n c"
  by (induction n) (simp_all add: called_def replicate_append_same)

lemma stdout_called_funpow: "stdout ((called c ^^ n) s) = stdout s"
  by (induction n) (simp_all add: called_def)

lemma main_no_context:
  "lws_create_context env = None \<Longrightarrow>
   main h env fuel argc argv = Returned 1
     \<lparr>stdout = ''Failed to create WebSocket context\<newline>'',
      calls = [Lws_set_log_level
                 (LLL_ERR h OR LLL_WARN h OR LLL_NOTICE h OR LLL_INFO h OR LLL_DEBUG h),
               Lws_create_context
                 \<lparr>port = CONTEXT_PORT_NO_LISTEN h, protocols = None, gid = - 1, uid = - 1\<rparr>]\<rparr>"
  by (simp add: main_def initial_def called_def printf_def)

lemma main_no_connection:
  "lws_create_context env = Some c \<Longrightarrow> lws_client_connect_via_info env = None \<Longrightarrow>
   main h env fuel argc argv = Returned 1
     \<lparr>stdout = ''Failed to connect to WebSocket server\<newline>'',
      calls = [Lws_set_log_level
                 (LLL_ERR h OR LLL_WARN h OR LLL_NOTICE h OR LLL_INFO h OR LLL_DEBUG h),
               Lws_create_context
                 \<lparr>port = CONTEXT_PORT_NO_LISTEN h, protocols = None, gid = - 1, uid = - 1\<rparr>,
               Lws_canonical_hostname c,
               Lws_client_connect_via_info
                 \<lparr>context' = c, address = SERVER_URL, path = ''/'',
                  host = lws_canonical_hostname env, origin = SERVER_URL, protocol = None,
                  ietf_version_or_minus_one = - 1,
                  ssl_connection = LCCSCF_USE_SSL h OR LCCSCF_ALLOW_SELFSIGNED h
                    OR LCCSCF_SKIP_SERVER_CERT_HOSTNAME_CHECK h\<rparr>,
               Lws_context_destroy c]\<rparr>"
  by (simp add: main_def initial_def called_def printf_def)

lemma main_connected:
  "lws_create_context env = Some c \<Longrightarrow> lws_client_connect_via_info env = Some w \<Longrightarrow>
   main h env fuel argc argv = Servicing
     \<lparr>stdout = [],
      calls = [Lws_set_log_level
                 (LLL_ERR h OR LLL_WARN h OR LLL_NOTICE h OR LLL_INFO h OR LLL_DEBUG h),
               Lws_create_context
                 \<lparr>port = CONTEXT_PORT_NO_LISTEN h, protocols = None, gid = - 1, uid = - 1\<rparr>,
               Lws_canonical_hostname c,
               Lws_client_connect_via_info
                 \<lparr>context' = c, address = SERVER_URL, path = ''/'',
                  host = lws_canonical_hostname env, origin = SERVER_URL, protocol = None,
                  ietf_version_or_minus_one = - 1,
                  ssl_connection = LCCSCF_USE_SSL h OR LCCSCF_ALLOW_SELFSIGNED h
                    OR LCCSCF_SKIP_SERVER_CERT_HOSTNAME_CHECK h\<rparr>]
              @ replicate fuel (Lws_service c 0)\<rparr>"
proof -
  assume c: "lws_create_context env = Some c" and w: "lws_client_connect_via_info env = Some w"
  have eq: "\<And>s. (called (Lws_service c 0) ^^ fuel) s
      = \<lparr>stdout = stdout s, calls = calls s @ replicate fuel (Lws_service c 0)\<rparr>"
    by (simp add: calls_called_funpow stdout_called_funpow)
  show ?thesis
    unfolding main_def Let_def c w option.case
    by (simp only: while_loop_forever loop.case eq)
       (simp add: initial_def called_def)
qed

lemma main_cases:
  obtains (no_context) "lws_create_context env = None"
  | (no_connection) c where "lws_create_context env = Some c" "lws_client_connect_via_info env = None"
  | (connected) c w where "lws_create_context env = Some c" "lws_client_connect_via_info env = Some w"
  by (cases "lws_create_context env"; cases "lws_client_connect_via_info env") auto

lemma word_or3_and:
  fixes a b c :: "32 word"
  shows "(a OR b OR c) AND a = a" "(a OR b OR c) AND b = b" "(a OR b OR c) AND c = c"
  by (rule bit_eqI; auto simp: bit_and_iff bit_or_iff)+

lemma connect_attempts_append:
  "connect_attempts (xs @ ys) = connect_attempts xs + connect_attempts ys"
  by (induction xs rule: connect_attempts.induct) simp_all

lemma connect_attempts_service: "connect_attempts (replicate n (Lws_service c k)) = 0"
  by (induction n) simp_all

lemma count_list_replicate_same: "count_list (replicate n x) x = n"
  by (induction n) simp_all

subsection \<open>The callback\<close>

text \<open>
  C6. Connection lifecycle events are logged: called with reason
  \<open>LWS_CALLBACK_CLIENT_ESTABLISHED\<close> the callback prints exactly
  \<open>WebSocket connection established\<close> and a newline, called with reason
  \<open>LWS_CALLBACK_CLIENT_CONNECTION_ERROR\<close> it prints exactly \<open>WebSocket connection error\<close>
  and a newline; whatever the other arguments are.
\<close>

theorem callback_http_logs_lifecycle:
  "callback_http wsi LWS_CALLBACK_CLIENT_ESTABLISHED user in_mem len s
     = Inr (0, s\<lparr>stdout := stdout s @ ''WebSocket connection established\<newline>''\<rparr>)
   \<and> callback_http wsi LWS_CALLBACK_CLIENT_CONNECTION_ERROR user in_mem len s
     = Inr (0, s\<lparr>stdout := stdout s @ ''WebSocket connection error\<newline>''\<rparr>)"
  by (simp add: callback_http_def printf_def)




text \<open>
  C2, as stated: for every payload delivered with reason \<open>LWS_CALLBACK_CLIENT_RECEIVE\<close> the
  program prints \<open>Received message: \<close>, the \<open>len\<close> bytes of the payload unmodified, and a
  newline. It does not for the three-byte payload \<open>a\<close>, null, \<open>b\<close>: \<open>%.*s\<close> stops at the
  null character.
\<close>

theorem callback_http_receive_not_verbatim:
  "callback_http 0 LWS_CALLBACK_CLIENT_RECEIVE None [CHR ''a'', CHR 0x00, CHR ''b''] 3 initial
     = Inr (0, \<lparr>stdout = ''Received message: a\<newline>'', calls = []\<rparr>)
   \<and> callback_http 0 LWS_CALLBACK_CLIENT_RECEIVE None [CHR ''a'', CHR 0x00, CHR ''b''] 3 initial
     \<noteq> Inr (0, \<lparr>stdout = ''Received message: '' @ [CHR ''a'', CHR 0x00, CHR ''b''] @ ''\<newline>'',
               calls = []\<rparr>)"
  by (simp add: callback_http_def conv_precision_s_def int_of_size_t_def printf_def initial_def
      numeral_3_eq_3)

text \<open>
  C2, amended: for every payload of \<open>len\<close> bytes, \<open>len\<close> at most \<open>INT_MAX = 2^31 - 1\<close>,
  delivered with reason \<open>LWS_CALLBACK_CLIENT_RECEIVE\<close>, the program prints
  \<open>Received message: \<close>, then the bytes of the payload up to, not including, its first
  null byte (so the whole payload, unmodified, when none of its bytes is null), then a
  newline.
\<close>

theorem callback_http_receive_prints_c_string:
  assumes "len \<le> length in_mem" and "len < 2 ^ 31"
  shows "callback_http wsi LWS_CALLBACK_CLIENT_RECEIVE user in_mem len s
           = Inr (0, s\<lparr>stdout := stdout s @ ''Received message: ''
                @ takeWhile (\<lambda>c. c \<noteq> CHR 0x00) (take len in_mem) @ ''\<newline>''\<rparr>)
         \<and> (CHR 0x00 \<notin> set (take len in_mem) \<longrightarrow>
              callback_http wsi LWS_CALLBACK_CLIENT_RECEIVE user in_mem len s
                = Inr (0, s\<lparr>stdout := stdout s @ ''Received message: ''
                     @ take len in_mem @ ''\<newline>''\<rparr>))"
proof -
  have "CHR 0x00 \<notin> set (take len in_mem) \<Longrightarrow>
    takeWhile (\<lambda>c. c \<noteq> CHR 0x00) (take len in_mem) = take len in_mem"
    by (rule takeWhile_eq_all_conv [THEN iffD2]) auto
  then show ?thesis
    using assms by (auto simp: callback_http_def conv_precision_s_in_bounds printf_def)
qed

theorem callback_http_receive_prints_c_string_witness:
  "(3::nat) \<le> length ''abc'' \<and> (3::nat) < 2 ^ 31 \<and> CHR 0x00 \<notin> set (take 3 ''abc'')
   \<and> callback_http 0 LWS_CALLBACK_CLIENT_RECEIVE None ''abc'' 3 initial
       = Inr (0, \<lparr>stdout = ''Received message: abc\<newline>'', calls = []\<rparr>)"
  using callback_http_receive_prints_c_string [of 3 "''abc''" 0 None initial]
  by (simp add: initial_def)

subsection \<open>main\<close>

text \<open>
  C1. In every run, whatever the command line and whatever the library answers, the
  \<open>ssl_connection\<close> flags of the \<open>lws_client_connect_info\<close> passed to
  \<open>lws_client_connect_via_info\<close> include \<open>LCCSCF_ALLOW_SELFSIGNED\<close> and
  \<open>LCCSCF_SKIP_SERVER_CERT_HOSTNAME_CHECK\<close>: no condition or configuration gates them.
\<close>

theorem main_skips_hostname_check:
  "Lws_client_connect_via_info ci \<in> set (calls (state_of (main h env fuel argc argv))) \<Longrightarrow>
     ssl_connection ci AND LCCSCF_ALLOW_SELFSIGNED h = LCCSCF_ALLOW_SELFSIGNED h
     \<and> ssl_connection ci AND LCCSCF_SKIP_SERVER_CERT_HOSTNAME_CHECK h
         = LCCSCF_SKIP_SERVER_CERT_HOSTNAME_CHECK h"
proof (cases env rule: main_cases)
  case no_context
  assume "Lws_client_connect_via_info ci \<in> set (calls (state_of (main h env fuel argc argv)))"
  with no_context show ?thesis by (simp add: main_no_context)
next
  case (no_connection c)
  assume "Lws_client_connect_via_info ci \<in> set (calls (state_of (main h env fuel argc argv)))"
  with no_connection show ?thesis by (auto simp: main_no_connection word_or3_and)
next
  case (connected c w)
  assume "Lws_client_connect_via_info ci \<in> set (calls (state_of (main h env fuel argc argv)))"
  with connected show ?thesis by (auto simp: main_connected word_or3_and)
qed

theorem main_skips_hostname_check_witness:
  "Lws_client_connect_via_info
     \<lparr>context' = 1, address = ''wss://relay.wellorder.net'', path = ''/'', host = ''localhost'',
      origin = ''wss://relay.wellorder.net'', protocol = None, ietf_version_or_minus_one = - 1,
      ssl_connection = 7\<rparr>
     \<in> set (calls (state_of (main lws_h_v4 env_connected 2 1 [''websocket_client''])))
   \<and> (7 :: 32 word) AND 2 = 2 \<and> (7 :: 32 word) AND 4 = 4"
proof -
  let ?ci = "\<lparr>context' = 1, address = ''wss://relay.wellorder.net'', path = ''/'',
      host = ''localhost'', origin = ''wss://relay.wellorder.net'', protocol = None,
      ietf_version_or_minus_one = - 1, ssl_connection = (7 :: 32 word)\<rparr>"
  have called: "Lws_client_connect_via_info ?ci
      \<in> set (calls (state_of (main lws_h_v4 env_connected 2 1 [''websocket_client''])))"
    by (simp add: main_def lws_h_v4_def env_connected_def SERVER_URL_def initial_def called_def
        numeral_2_eq_2)
  from main_skips_hostname_check [OF called] called show ?thesis
    by (simp add: lws_h_v4_def)
qed

text \<open>
  C3. The program performs no reconnection. In every run \<open>lws_client_connect_via_info\<close> is
  called at most once: wherever a connection attempt stands in the call log, none comes
  before it and none after it. When the attempt fails (the call returns \<open>NULL\<close>) \<open>main\<close>
  returns 1 instead of trying again; and the callback, told of a connection error, prints
  and makes no library call.
\<close>

theorem main_connects_at_most_once:
  "connect_attempts (calls (state_of (main h env fuel argc argv))) \<le> 1
   \<and> (calls (state_of (main h env fuel argc argv)) = before @ Lws_client_connect_via_info ci # after
        \<longrightarrow> connect_attempts before = 0 \<and> connect_attempts after = 0)
   \<and> (lws_client_connect_via_info env = None \<longrightarrow> (\<exists>s. main h env fuel argc argv = Returned 1 s))
   \<and> (\<exists>s'. callback_http wsi LWS_CALLBACK_CLIENT_CONNECTION_ERROR user in_mem len s = Inr (0, s')
          \<and> calls s' = calls s)"
proof -
  have once: "connect_attempts (calls (state_of (main h env fuel argc argv))) \<le> 1"
    by (cases env rule: main_cases)
      (simp_all add: main_no_context main_no_connection main_connected
        connect_attempts_append connect_attempts_service)
  have split: "connect_attempts before = 0 \<and> connect_attempts after = 0"
    if "calls (state_of (main h env fuel argc argv)) = before @ Lws_client_connect_via_info ci # after"
    using once unfolding that by (simp add: connect_attempts_append)
  have exits: "\<exists>s. main h env fuel argc argv = Returned 1 s"
    if "lws_client_connect_via_info env = None"
    using that by (cases env rule: main_cases) (simp_all add: main_no_context main_no_connection)
  have handler: "\<exists>s'. callback_http wsi LWS_CALLBACK_CLIENT_CONNECTION_ERROR user in_mem len s
      = Inr (0, s') \<and> calls s' = calls s"
    by (simp add: callback_http_def printf_def)
  from once split exits handler show ?thesis by blast
qed

theorem main_connects_at_most_once_witness:
  "calls (state_of (main lws_h_v4 env_no_connection 2 1 [''websocket_client'']))
     = [Lws_set_log_level 31,
        Lws_create_context \<lparr>port = - 1, protocols = None, gid = - 1, uid = - 1\<rparr>,
        Lws_canonical_hostname 1]
       @ Lws_client_connect_via_info
           \<lparr>context' = 1, address = ''wss://relay.wellorder.net'', path = ''/'',
            host = ''localhost'', origin = ''wss://relay.wellorder.net'', protocol = None,
            ietf_version_or_minus_one = - 1, ssl_connection = 7\<rparr>
       # [Lws_context_destroy 1]
   \<and> lws_client_connect_via_info env_no_connection = None
   \<and> connect_attempts [Lws_context_destroy 1] = 0
   \<and> (\<exists>s. main lws_h_v4 env_no_connection 2 1 [''websocket_client''] = Returned 1 s)"
proof -
  let ?ci = "\<lparr>context' = 1, address = ''wss://relay.wellorder.net'', path = ''/'',
      host = ''localhost'', origin = ''wss://relay.wellorder.net'', protocol = None,
      ietf_version_or_minus_one = - 1, ssl_connection = (7 :: 32 word)\<rparr>"
  let ?before = "[Lws_set_log_level 31,
      Lws_create_context \<lparr>port = - 1, protocols = None, gid = - 1, uid = - 1\<rparr>,
      Lws_canonical_hostname 1]"
  have log: "calls (state_of (main lws_h_v4 env_no_connection 2 1 [''websocket_client'']))
      = ?before @ Lws_client_connect_via_info ?ci # [Lws_context_destroy 1]"
    by (simp add: main_def lws_h_v4_def env_no_connection_def SERVER_URL_def initial_def
        called_def printf_def)
  have none: "lws_client_connect_via_info env_no_connection = None"
    by (simp add: env_no_connection_def)
  from main_connects_at_most_once [of lws_h_v4 env_no_connection 2 1 "[''websocket_client'']"
      ?before ?ci "[Lws_context_destroy 1]"] log none
  show ?thesis by simp
qed

text \<open>
  C4. Once the service loop is entered, that is when context creation and connection
  initiation have both succeeded, the program never terminates normally: however many
  rounds the run is observed for, it is still in the loop, having called \<open>lws_service\<close>
  once per round; \<open>lws_context_destroy\<close> has not been called and \<open>main\<close> has not
  returned, so the destruction and the \<open>return 0\<close> after the loop are unreachable.
\<close>

theorem main_service_loop_never_exits:
  assumes "lws_create_context env = Some c" and "lws_client_connect_via_info env = Some w"
  shows "(\<exists>s. main h env fuel argc argv = Servicing s
            \<and> count_list (calls s) (Lws_service c 0) = fuel
            \<and> (\<forall>c'. Lws_context_destroy c' \<notin> set (calls s)))
         \<and> (\<forall>rc s. main h env fuel argc argv \<noteq> Returned rc s)"
  using assms by (auto simp: main_connected count_list_append count_list_replicate_same)

theorem main_service_loop_never_exits_witness:
  "lws_create_context env_connected = Some 1 \<and> lws_client_connect_via_info env_connected = Some 2
   \<and> (\<exists>s. main lws_h_v4 env_connected 1000 1 [''websocket_client''] = Servicing s
          \<and> count_list (calls s) (Lws_service 1 0) = 1000
          \<and> (\<forall>c'. Lws_context_destroy c' \<notin> set (calls s)))"
proof -
  have c: "lws_create_context env_connected = Some 1"
    and w: "lws_client_connect_via_info env_connected = Some 2"
    by (simp_all add: env_connected_def)
  from main_service_loop_never_exits [OF c w] c w show ?thesis by blast
qed

text \<open>
  C5. In every run the program connects to one fixed endpoint: each connection attempt
  has the address and origin \<open>wss://relay.wellorder.net\<close>, the path \<open>/\<close> and
  \<open>LCCSCF_USE_SSL\<close> among its flags; and a run in which the context is created makes
  exactly one attempt.
\<close>

theorem main_fixed_endpoint:
  "(Lws_client_connect_via_info ci \<in> set (calls (state_of (main h env fuel argc argv))) \<longrightarrow>
      address ci = ''wss://relay.wellorder.net'' \<and> origin ci = ''wss://relay.wellorder.net''
      \<and> path ci = ''/''
      \<and> ssl_connection ci AND LCCSCF_USE_SSL h = LCCSCF_USE_SSL h)
   \<and> (lws_create_context env = Some c \<longrightarrow>
        connect_attempts (calls (state_of (main h env fuel argc argv))) = 1)"
proof (cases env rule: main_cases)
  case no_context
  then show ?thesis by (simp add: main_no_context)
next
  case (no_connection c')
  then show ?thesis by (auto simp: main_no_connection word_or3_and SERVER_URL_def)
next
  case (connected c' w)
  then show ?thesis
    by (auto simp: main_connected word_or3_and SERVER_URL_def connect_attempts_append
        connect_attempts_service)
qed

theorem main_fixed_endpoint_witness:
  "Lws_client_connect_via_info
     \<lparr>context' = 1, address = ''wss://relay.wellorder.net'', path = ''/'', host = ''localhost'',
      origin = ''wss://relay.wellorder.net'', protocol = None, ietf_version_or_minus_one = - 1,
      ssl_connection = 7\<rparr>
     \<in> set (calls (state_of (main lws_h_v4 env_connected 3 2 [''websocket_client'', ''-v''])))
   \<and> lws_create_context env_connected = Some 1
   \<and> (7 :: 32 word) AND 1 = 1
   \<and> connect_attempts (calls (state_of (main lws_h_v4 env_connected 3 2 [''websocket_client'', ''-v'']))) = 1"
proof -
  let ?ci = "\<lparr>context' = 1, address = ''wss://relay.wellorder.net'', path = ''/'',
      host = ''localhost'', origin = ''wss://relay.wellorder.net'', protocol = None,
      ietf_version_or_minus_one = - 1, ssl_connection = (7 :: 32 word)\<rparr>"
  have called: "Lws_client_connect_via_info ?ci
      \<in> set (calls (state_of (main lws_h_v4 env_connected 3 2 [''websocket_client'', ''-v''])))"
    by (simp add: main_def lws_h_v4_def env_connected_def SERVER_URL_def initial_def called_def
        numeral_3_eq_3)
  have c: "lws_create_context env_connected = Some 1"
    by (simp add: env_connected_def)
  from main_fixed_endpoint [of ?ci lws_h_v4 env_connected 3 2 "[''websocket_client'', ''-v'']" 1]
    called c
  show ?thesis by (simp add: lws_h_v4_def)
qed

text \<open>
  C10. \<open>main\<close> returns 1 when context creation fails, having printed
  \<open>Failed to create WebSocket context\<close> and a newline; it returns 1 when connection
  initiation fails, having printed \<open>Failed to connect to WebSocket server\<close> and a newline
  and destroyed the context; and it returns on no other path: whenever \<open>main\<close> returns,
  the exit code is 1 and one of the two calls has failed.
\<close>

theorem main_returns_1_on_failure:
  "(lws_create_context env = None \<longrightarrow>
      (\<exists>s. main h env fuel argc argv = Returned 1 s
         \<and> stdout s = ''Failed to create WebSocket context\<newline>''
         \<and> (\<forall>c'. Lws_context_destroy c' \<notin> set (calls s))))
   \<and> (lws_create_context env = Some c \<and> lws_client_connect_via_info env = None \<longrightarrow>
      (\<exists>s. main h env fuel argc argv = Returned 1 s
         \<and> stdout s = ''Failed to connect to WebSocket server\<newline>''
         \<and> last (calls s) = Lws_context_destroy c))
   \<and> (main h env fuel argc argv = Returned rc s \<longrightarrow>
        rc = 1 \<and> (lws_create_context env = None \<or> lws_client_connect_via_info env = None))"
proof (cases env rule: main_cases)
  case no_context
  then show ?thesis by (simp add: main_no_context)
next
  case (no_connection c')
  then show ?thesis by (simp add: main_no_connection)
next
  case (connected c' w)
  then show ?thesis by (simp add: main_connected)
qed

theorem main_returns_1_on_failure_witness:
  "lws_create_context env_no_context = None
   \<and> (\<exists>s. main lws_h_v4 env_no_context 5 1 [''websocket_client''] = Returned 1 s
         \<and> stdout s = ''Failed to create WebSocket context\<newline>'')
   \<and> lws_create_context env_no_connection = Some 1
   \<and> lws_client_connect_via_info env_no_connection = None
   \<and> (\<exists>s. main lws_h_v4 env_no_connection 5 1 [''websocket_client''] = Returned 1 s
         \<and> stdout s = ''Failed to connect to WebSocket server\<newline>''
         \<and> last (calls s) = Lws_context_destroy 1)"
proof -
  have a: "lws_create_context env_no_context = None"
    by (simp add: env_no_context_def)
  have b: "lws_create_context env_no_connection = Some 1"
    "lws_client_connect_via_info env_no_connection = None"
    by (simp_all add: env_no_connection_def)
  from main_returns_1_on_failure [of env_no_context lws_h_v4 5 1 "[''websocket_client'']"] a
  have "\<exists>s. main lws_h_v4 env_no_context 5 1 [''websocket_client''] = Returned 1 s
         \<and> stdout s = ''Failed to create WebSocket context\<newline>''"
    by blast
  moreover
  from main_returns_1_on_failure [of env_no_connection lws_h_v4 5 1 "[''websocket_client'']" 1] b
  have "\<exists>s. main lws_h_v4 env_no_connection 5 1 [''websocket_client''] = Returned 1 s
         \<and> stdout s = ''Failed to connect to WebSocket server\<newline>''
         \<and> last (calls s) = Lws_context_destroy 1"
    by blast
  ultimately show ?thesis using a b by blast
qed

section \<open>Properties of the specified core\<close>

subsection \<open>Bytes, lengths and masking\<close>

lemma opcode_of_number_inverse: "opcode_of_number (opcode_number op) = Some op"
  by (cases op) (simp_all add: opcode_of_number_def)

lemma opcode_number_less: "opcode_number op < 16"
  by (cases op) simp_all

lemma unat_to_byte: "n < 256 \<Longrightarrow> unat (to_byte n) = n"
  by (simp add: to_byte_def unsigned_of_nat take_bit_nat_eq_self)

lemma be_value_snoc: "be_value (bs @ [b]) = 256 * be_value bs + unat b"
  by (simp add: be_value_def)

lemma length_be_bytes: "length (be_bytes k n) = k"
  by (induction k arbitrary: n) simp_all

lemma be_value_be_bytes: "n < 256 ^ k \<Longrightarrow> be_value (be_bytes k n) = n"
proof (induction k arbitrary: n)
  case 0
  then show ?case by (simp add: be_value_def)
next
  case (Suc k)
  from Suc.prems have "n div 256 < 256 ^ k"
    by (simp add: less_mult_imp_div_less mult.commute)
  then have "be_value (be_bytes k (n div 256)) = n div 256" by (rule Suc.IH)
  then show ?case by (simp add: be_value_snoc unat_to_byte)
qed

lemma length_xor_mask: "length (xor_mask key data) = length data"
  by (induction key data rule: xor_mask.induct) simp_all

lemma xor_mask_involution: "xor_mask key (xor_mask key data) = data"
  by (induction key data rule: xor_mask.induct) (simp_all add: xor.assoc)

lemma first_byte:
  assumes "c < 16"
  shows "unat (to_byte ((if f then 128 else 0) + c)) mod 16 = c"
    and "unat (to_byte ((if f then 128 else 0) + c)) div 16 mod 8 = 0"
    and "128 \<le> unat (to_byte ((if f then 128 else 0) + c)) \<longleftrightarrow> f"
proof -
  let ?n = "(if f then 128 else 0) + c"
  have n: "unat (to_byte ?n) = ?n"
    by (rule unat_to_byte) (use assms in simp)
  from assms show "unat (to_byte ?n) mod 16 = c"
    unfolding n by (cases f) (simp_all, presburger)
  from assms show "unat (to_byte ?n) div 16 mod 8 = 0"
    unfolding n by (cases f) (simp_all, presburger)
  from assms show "128 \<le> unat (to_byte ?n) \<longleftrightarrow> f"
    unfolding n by (cases f) simp_all
qed

lemma second_byte_unmasked:
  assumes "l < 128"
  shows "unat (to_byte l) mod 128 = l" and "\<not> 128 \<le> unat (to_byte l)"
  using assms by (simp_all add: unat_to_byte)

lemma second_byte_masked:
  assumes "l < 128"
  shows "unat (to_byte (128 + l)) mod 128 = l" and "128 \<le> unat (to_byte (128 + l))"
  using assms by (simp_all add: unat_to_byte)

lemmas codec_simps = unat_to_byte opcode_of_number_inverse opcode_number_less first_byte
  second_byte_unmasked second_byte_masked length_be_bytes be_value_be_bytes
  length_xor_mask xor_mask_involution

lemma roundtrip_unmasked:
  assumes "masking_key f = None" "length (payload f) < 2 ^ 64"
    "is_control (opcode f) \<longrightarrow> length (payload f) \<le> 125"
  shows "\<exists>bs. encode f = Inr bs \<and> decode (bs @ tail) = Inr (Some f, length bs)"
proof -
  consider (short) "length (payload f) \<le> 125"
    | (medium) "125 < length (payload f)" "length (payload f) < 65536"
    | (long) "65536 \<le> length (payload f)"
    by linarith
  then show ?thesis
  proof cases
    case short
    with assms show ?thesis
      by (simp add: encode_def decode_def codec_simps)
  next
    case medium
    with assms show ?thesis
      by (simp add: encode_def decode_def codec_simps)
  next
    case long
    with assms show ?thesis
      by (simp add: encode_def decode_def codec_simps)
  qed
qed

lemma roundtrip_masked:
  assumes "masking_key f = Some key" "length key = 4" "length (payload f) < 2 ^ 64"
    "is_control (opcode f) \<longrightarrow> length (payload f) \<le> 125"
  shows "\<exists>bs. encode f = Inr bs \<and> decode (bs @ tail) = Inr (Some f, length bs)"
proof -
  consider (short) "length (payload f) \<le> 125"
    | (medium) "125 < length (payload f)" "length (payload f) < 65536"
    | (long) "65536 \<le> length (payload f)"
    by linarith
  then show ?thesis
  proof cases
    case short
    with assms show ?thesis
      by (simp add: encode_def decode_def codec_simps)
  next
    case medium
    with assms show ?thesis
      by (simp add: encode_def decode_def codec_simps)
  next
    case long
    with assms show ?thesis
      by (simp add: encode_def decode_def codec_simps)
  qed
qed

text \<open>The masked text frame "Hello" of RFC 6455, section 5.7.\<close>

lemma rfc_example:
  "encode \<lparr>opcode = Text, payload = [0x48, 0x65, 0x6c, 0x6c, 0x6f], fin = True,
     masking_key = Some [0x37, 0xfa, 0x21, 0x3d]\<rparr>
   = Inr [0x81, 0x85, 0x37, 0xfa, 0x21, 0x3d, 0x7f, 0x9f, 0x4d, 0x51, 0x58]"
  by (simp add: encode_def to_byte_def)

subsection \<open>Round trip\<close>

text \<open>
  C7. For every valid frame, with any opcode, fin flag, masking key and payload, so also
  with a payload of 0, 125, 126, 65535 or 65536 bytes, decoding the encoded frame gives
  the frame back: \<open>encode\<close> succeeds, and \<open>decode\<close> of its bytes, alone or followed by more
  of the stream, is the frame and the number of bytes of the encoding.
\<close>

theorem decode_encode:
  assumes "valid_frame f"
  shows "\<exists>bs. encode f = Inr bs \<and> decode bs = Inr (Some f, length bs)
           \<and> (\<forall>tail. decode (bs @ tail) = Inr (Some f, length bs))"
proof -
  have "\<exists>bs. encode f = Inr bs \<and> decode (bs @ tail) = Inr (Some f, length bs)" for tail
  proof (cases "masking_key f")
    case None
    with assms show ?thesis
      by (intro roundtrip_unmasked) (simp_all add: valid_frame_def)
  next
    case (Some key)
    with assms show ?thesis
      by (intro roundtrip_masked [where key = key]) (simp_all add: valid_frame_def)
  qed
  from this [of "[]"] this show ?thesis by (metis append_Nil2 sum.inject(2))
qed

theorem decode_encode_witness:
  "valid_frame \<lparr>opcode = Text, payload = replicate 65536 0x61, fin = True,
      masking_key = Some [0x37, 0xfa, 0x21, 0x3d]\<rparr>
   \<and> (\<exists>bs. encode \<lparr>opcode = Text, payload = replicate 65536 0x61, fin = True,
              masking_key = Some [0x37, 0xfa, 0x21, 0x3d]\<rparr> = Inr bs
          \<and> decode bs = Inr (Some \<lparr>opcode = Text, payload = replicate 65536 0x61, fin = True,
              masking_key = Some [0x37, 0xfa, 0x21, 0x3d]\<rparr>, length bs))
   \<and> valid_frame \<lparr>opcode = Ping, payload = replicate 125 0x2e, fin = True,
      masking_key = None\<rparr>
   \<and> (\<exists>bs. encode \<lparr>opcode = Ping, payload = replicate 125 0x2e, fin = True,
              masking_key = None\<rparr> = Inr bs
          \<and> decode bs = Inr (Some \<lparr>opcode = Ping, payload = replicate 125 0x2e, fin = True,
              masking_key = None\<rparr>, length bs))"
proof -
  have masked_text: "valid_frame \<lparr>opcode = Text, payload = replicate 65536 0x61, fin = True,
      masking_key = Some [0x37, 0xfa, 0x21, 0x3d]\<rparr>"
    by (simp add: valid_frame_def)
  have plain_ping: "valid_frame \<lparr>opcode = Ping, payload = replicate 125 0x2e, fin = True,
      masking_key = None\<rparr>"
    by (simp add: valid_frame_def)
  from decode_encode [OF masked_text] decode_encode [OF plain_ping] masked_text plain_ping
  show ?thesis by blast
qed

subsection \<open>Backpressure\<close>

text \<open>
  C8. For every outbound queue at capacity \<open>N\<close>, \<open>enqueue\<close> fails with \<open>QueueFull\<close> and
  leaves the queue as it was.
\<close>

theorem enqueue_full:
  "capacity q \<le> length (messages q) \<Longrightarrow> enqueue message q = (Inl QueueFull, q)"
  by (simp add: enqueue_def)

theorem enqueue_full_witness:
  "capacity \<lparr>capacity = 1, messages = [\<lparr>message_payload = [0x68, 0x69], kind = TextMessage,
       enqueue_timestamp = 0\<rparr>]\<rparr>
     \<le> length (messages \<lparr>capacity = 1, messages = [\<lparr>message_payload = [0x68, 0x69],
       kind = TextMessage, enqueue_timestamp = 0\<rparr>]\<rparr>)
   \<and> enqueue \<lparr>message_payload = [0x6f], kind = BinaryMessage, enqueue_timestamp = 1\<rparr>
       \<lparr>capacity = 1, messages = [\<lparr>message_payload = [0x68, 0x69], kind = TextMessage,
          enqueue_timestamp = 0\<rparr>]\<rparr>
     = (Inl QueueFull, \<lparr>capacity = 1, messages = [\<lparr>message_payload = [0x68, 0x69],
          kind = TextMessage, enqueue_timestamp = 0\<rparr>]\<rparr>)"
proof -
  let ?q = "\<lparr>capacity = 1, messages = [\<lparr>message_payload = [0x68, 0x69], kind = TextMessage,
      enqueue_timestamp = 0\<rparr>]\<rparr>"
  have full: "capacity ?q \<le> length (messages ?q)" by simp
  from enqueue_full [OF full] full show ?thesis by simp
qed

end
